theory Spec2Isabelle
  imports Complex_Main
begin

section \<open>Data model of src/contexts/MusicContext.tsx\<close>

text \<open>
  Numbers of the source are JavaScript doubles. Clock readings (\<open>Date.now()\<close>,
  \<open>Timestamp.toMillis()\<close>, \<open>joinedAt\<close>) are whole milliseconds and are modelled as
  \<open>int\<close>; positions, durations and volumes are modelled as exact rationals, so rounding
  of the floating-point operations is not part of the model.
\<close>

record Song =
  song_id :: string
  song_title :: string
  song_artist :: string
  song_url :: string
  song_duration :: rat

record Participant =
  p_id :: string
  p_email :: string
  p_joinedAt :: int

record User =
  uid :: string
  email :: string

text \<open>
  The fields of \<open>MusicState\<close> that the synchronisation code reads or writes
  (\<open>playlists\<close>, \<open>currentPlaylist\<close>, \<open>isShuffleEnabled\<close> and \<open>repeatMode\<close> are not
  touched by it).
\<close>

record MusicState =
  currentSong :: "Song option"
  isPlaying :: bool
  currentTime :: rat
  duration :: rat
  queue :: "Song list"
  volume :: rat

text \<open>
  A document of the \<open>rooms\<close> collection. Every field of a Firestore document may be
  missing or null. The code reads the two alike (as falsy, or as unequal to a string
  or a boolean) and both are \<open>None\<close>, in every field but \<open>lastActionSeekPosition\<close>:
  the handler tests that one with \<open>!== undefined\<close> and then computes
  \<open>data.lastActionSeekPosition + elapsedTime\<close>, in which null counts as 0. There
  \<open>None\<close> is the missing field only, and a null is \<open>Some 0\<close>, the number the only
  expression that reads it takes it for. \<open>lastActionTime\<close> holds the milliseconds of the
  resolved server timestamp. \<open>otherFields\<close> stands for the fields the synchronisation
  code never names (\<open>likes\<close>, \<open>moods\<close>, \<open>lastUpdated\<close>, \<open>updatedBy\<close>), by field path.
\<close>

record RoomData =
  room_id :: "string option"
  participants :: "Participant list option"
  currentTrackId :: "string option"
  room_isPlaying :: "bool option"
  lastActionTime :: "int option"
  lastActionSeekPosition :: "rat option"
  lastActionByUserId :: "string option"
  createdAt :: "int option"
  otherFields :: "(string \<times> string) list"

datatype FieldValue = ServerTimestamp

text \<open>
  The object literal handed to \<open>updateDoc\<close>: a field that the literal does not
  mention is \<open>None\<close>.
\<close>

record UpdateData =
  u_participants :: "Participant list option"
  u_currentTrackId :: "string option"
  u_isPlaying :: "bool option"
  u_lastActionTime :: "FieldValue option"
  u_lastActionSeekPosition :: "rat option"
  u_lastActionByUserId :: "string option"

datatype StateUpdate =
    NowPlaying Song
  | SetCurrentTime rat
  | SetIsPlaying bool

text \<open>
  What a function of the source does to the outside, in program order: calls on the
  \<open>Audio.Sound\<close> object in \<open>soundRef.current\<close>, \<open>setState\<close> calls, requests to the store
  and the remaining calls of \<open>playSong\<close>.
\<close>

datatype Effect =
    StopAsync
  | UnloadAsync
  | DownloadAsync string string
  | PreloadNextSong
  | CreateAsync string bool rat
  | SetPositionAsync rat
  | PlayAsync
  | PauseAsync
  | SetState StateUpdate
  | ShowWidget Song bool rat
  | UpdateDoc string UpdateData
  | SetLastPlayedBy string
  | ClearSongMood

datatype Error = NotAuthenticated | NotFound | InvalidArgument

text \<open>
  The variables \<open>user\<close> and \<open>currentRoom\<close> as the closures of one render see them.
\<close>

record Session =
  user :: "User option"
  currentRoom :: "string option"

text \<open>
  The timers of the JavaScript runtime that \<open>updateSeekPosition\<close> starts. A timer
  remembers the variables its callback closed over. \<open>seekDebounceRef\<close> holds the
  handle of the timer started last (it is never reset to null).
\<close>

record Timer =
  t_id :: nat
  t_deadline :: int
  t_room :: string
  t_uid :: string
  t_pos :: rat

record Timers =
  seekDebounceRef :: "nat option"
  pending :: "Timer list"
  nextId :: nat

section \<open>JavaScript truthiness\<close>

definition truthy_string :: "string option \<Rightarrow> bool" where
  "truthy_string s = (case s of None \<Rightarrow> False | Some v \<Rightarrow> v \<noteq> [])"

definition in_room :: "Session \<Rightarrow> bool" where
  "in_room s = (truthy_string (currentRoom s) \<and> user s \<noteq> None)"

section \<open>Position projection\<close>

text \<open>
  \<open>calculateCurrentPosition\<close> (lines 493-499); \<open>now\<close> is the value of
  \<open>new Date().getTime()\<close>, and a null \<open>lastActionTime\<close> is \<open>None\<close>.
\<close>

definition calculateCurrentPosition :: "int option \<Rightarrow> rat \<Rightarrow> int \<Rightarrow> rat" where
  "calculateCurrentPosition lastActionTime' lastActionSeekPosition' now =
     (case lastActionTime' of
        None \<Rightarrow> lastActionSeekPosition'
      | Some t \<Rightarrow>
          (let elapsedTime = of_int (now - t) / 1000
           in lastActionSeekPosition' + elapsedTime))"

section \<open>Action publisher\<close>

definition playPauseData :: "bool \<Rightarrow> rat \<Rightarrow> string \<Rightarrow> UpdateData" where
  "playPauseData playing currentSeekPosition u =
     \<lparr> u_participants = None, u_currentTrackId = None, u_isPlaying = Some playing,
       u_lastActionTime = Some ServerTimestamp,
       u_lastActionSeekPosition = Some currentSeekPosition,
       u_lastActionByUserId = Some u \<rparr>"

definition seekData :: "rat \<Rightarrow> string \<Rightarrow> UpdateData" where
  "seekData newSeekPosition u =
     \<lparr> u_participants = None, u_currentTrackId = None, u_isPlaying = None,
       u_lastActionTime = Some ServerTimestamp,
       u_lastActionSeekPosition = Some newSeekPosition,
       u_lastActionByUserId = Some u \<rparr>"

definition trackData :: "Song \<Rightarrow> string \<Rightarrow> UpdateData" where
  "trackData song u =
     \<lparr> u_participants = None, u_currentTrackId = Some (song_id song),
       u_isPlaying = Some True,
       u_lastActionTime = Some ServerTimestamp,
       u_lastActionSeekPosition = Some 0,
       u_lastActionByUserId = Some u \<rparr>"

text \<open>
  The three publishers. Each returns at once when \<open>!currentRoom || !user\<close>; the
  \<open>updateDoc\<close> request is inside \<open>try\<close>/\<open>catch\<close>, so a rejection by the store is logged
  and nothing is thrown to the caller: the result is always \<open>Inr\<close>.
\<close>

definition updatePlayPauseState :: "Session \<Rightarrow> bool \<Rightarrow> rat \<Rightarrow> Error + Effect list" where
  "updatePlayPauseState s playing currentSeekPosition =
     (case user s of
        None \<Rightarrow> Inr []
      | Some u \<Rightarrow>
          (case currentRoom s of
             None \<Rightarrow> Inr []
           | Some r \<Rightarrow>
               if r = [] then Inr []
               else Inr [UpdateDoc r (playPauseData playing currentSeekPosition (uid u))]))"

definition updateTrack :: "Session \<Rightarrow> Song \<Rightarrow> Error + Effect list" where
  "updateTrack s song =
     (case user s of
        None \<Rightarrow> Inr []
      | Some u \<Rightarrow>
          (case currentRoom s of
             None \<Rightarrow> Inr []
           | Some r \<Rightarrow>
               if r = [] then Inr []
               else Inr [UpdateDoc r (trackData song (uid u))]))"

definition clearTimeout :: "nat \<Rightarrow> Timers \<Rightarrow> Timers" where
  "clearTimeout h tm = tm\<lparr> pending := filter (\<lambda>t. t_id t \<noteq> h) (pending tm) \<rparr>"

definition setTimeout :: "string \<Rightarrow> string \<Rightarrow> rat \<Rightarrow> int \<Rightarrow> Timers \<Rightarrow> nat \<times> Timers" where
  "setTimeout r u newSeekPosition deadline tm =
     (nextId tm,
      tm\<lparr> pending := pending tm @
             [\<lparr> t_id = nextId tm, t_deadline = deadline, t_room = r, t_uid = u,
                t_pos = newSeekPosition \<rparr>],
          nextId := Suc (nextId tm) \<rparr>)"

text \<open>
  \<open>updateSeekPosition\<close> (lines 527-555), called at clock reading \<open>now\<close>: the pending
  timer is cleared and a new one is started for \<open>now + 500\<close>.
\<close>

definition updateSeekPosition :: "Session \<Rightarrow> int \<Rightarrow> rat \<Rightarrow> Timers \<Rightarrow> Error + Timers" where
  "updateSeekPosition s now newSeekPosition tm =
     (case user s of
        None \<Rightarrow> Inr tm
      | Some u \<Rightarrow>
          (case currentRoom s of
             None \<Rightarrow> Inr tm
           | Some r \<Rightarrow>
               if r = [] then Inr tm
               else
                 (let tm1 = (case seekDebounceRef tm of
                               None \<Rightarrow> tm
                             | Some h \<Rightarrow> clearTimeout h tm);
                      (h', tm2) = setTimeout r (uid u) newSeekPosition (now + 500) tm1
                  in Inr (tm2\<lparr> seekDebounceRef := Some h' \<rparr>))))"

text \<open>
  The runtime at clock reading \<open>now\<close>: every pending timer whose deadline has come
  runs its callback, earliest deadline first, which sends the seek update.
\<close>

definition fire :: "Timer \<Rightarrow> Effect" where
  "fire t = UpdateDoc (t_room t) (seekData (t_pos t) (t_uid t))"

definition runTimers :: "int \<Rightarrow> Timers \<Rightarrow> Timers \<times> Effect list" where
  "runTimers now tm =
     (tm\<lparr> pending := filter (\<lambda>t. now < t_deadline t) (pending tm) \<rparr>,
      map fire (sort_key t_deadline (filter (\<lambda>t. t_deadline t \<le> now) (pending tm))))"

section \<open>Local transport: playSong\<close>

text \<open>
  The outcome of the calls \<open>playSong\<close> awaits on the audio engine, the file system and
  the now-playing widget: each may reject, which throws inside \<open>playSong\<close>.
  \<open>cached\<close> is \<open>localFileInfo.exists\<close>.
\<close>

record PlayIO =
  documentDirectory :: string
  stopOk :: bool
  unloadOk :: bool
  infoOk :: bool
  cached :: bool
  cacheDirOk :: bool
  downloadOk :: bool
  createOk :: bool
  widgetOk :: bool

definition SONG_CACHE_DIR :: "PlayIO \<Rightarrow> string" where
  "SONG_CACHE_DIR io = documentDirectory io @ ''song-cache/''"

text \<open>\<open>user.email?.split('@')[0] || 'Unknown'\<close>\<close>

definition displayName :: "User \<Rightarrow> string" where
  "displayName u =
     (let n = takeWhile (\<lambda>c. c \<noteq> CHR ''@'') (email u)
      in if n = [] then ''Unknown'' else n)"

text \<open>
  \<open>playSong\<close> (lines 583-671). \<open>hasSound\<close> says whether \<open>soundRef.current\<close> is set when
  the function starts. The whole body is inside \<open>try\<close>/\<open>catch\<close>: a call that rejects
  ends the function, with the effects up to and including that call, and nothing is
  thrown to the caller. \<open>Audio.Sound.createAsync\<close> is given the source and the initial
  status \<open>{shouldPlay: true, volume: state.volume}\<close>, with no position.
\<close>

definition playSong :: "Session \<Rightarrow> MusicState \<Rightarrow> bool \<Rightarrow> PlayIO \<Rightarrow> Song \<Rightarrow> Error + Effect list" where
  "playSong s st hasSound io song =
     (let (fx1, ok1) =
            (if hasSound
             then (if stopOk io then ([StopAsync, UnloadAsync], unloadOk io)
                   else ([StopAsync], False))
             else ([], True))
      in if \<not> ok1 then Inr fx1
         else if \<not> infoOk io then Inr fx1
         else
           (let localUri = SONG_CACHE_DIR io @ song_id song;
                fx2 = (if cached io then []
                       else if \<not> cacheDirOk io then []
                       else if downloadOk io
                            then [DownloadAsync (song_url song) localUri, PreloadNextSong]
                            else [DownloadAsync (song_url song) localUri]);
                songUrl = (if cached io \<or> (cacheDirOk io \<and> downloadOk io) then localUri
                           else song_url song);
                fx3 = fx1 @ fx2 @ [CreateAsync songUrl True (volume st)]
            in if \<not> createOk io then Inr fx3
               else
                 (let fx4 = fx3 @ [SetState (NowPlaying song), ShowWidget song True 0]
                  in if \<not> widgetOk io then Inr fx4
                     else
                       (case updateTrack s song of
                          Inl e \<Rightarrow> Inr fx4
                        | Inr w \<Rightarrow>
                            Inr (fx4 @ w @
                                 (case user s of
                                    None \<Rightarrow> []
                                  | Some u \<Rightarrow>
                                      if truthy_string (currentRoom s)
                                      then [SetLastPlayedBy (displayName u)] else []) @
                                 [ClearSongMood])))))"

text \<open>The functional updates handed to \<open>setState\<close>.\<close>

fun applyUpdate :: "StateUpdate \<Rightarrow> MusicState \<Rightarrow> MusicState" where
  "applyUpdate (NowPlaying song) st =
     st\<lparr> currentSong := Some song, isPlaying := True, currentTime := 0,
         duration := song_duration song \<rparr>"
| "applyUpdate (SetCurrentTime t) st = st\<lparr> currentTime := t \<rparr>"
| "applyUpdate (SetIsPlaying b) st = st\<lparr> isPlaying := b \<rparr>"

fun stateAfter :: "Effect list \<Rightarrow> MusicState \<Rightarrow> MusicState" where
  "stateAfter [] st = st"
| "stateAfter (SetState upd # fx) st = stateAfter fx (applyUpdate upd st)"
| "stateAfter (e # fx) st = stateAfter fx st"

section \<open>Remote reconciler: the onSnapshot handler of joinRoom\<close>

text \<open>
  \<open>soundRef.current\<close> (the argument \<open>soundRef\<close> below) is \<open>None\<close> when null; otherwise it answers \<open>getStatusAsync\<close>
  with a status, or rejects (\<open>None\<close>).
\<close>

record PlaybackStatus =
  isLoaded :: bool
  positionMillis :: rat
  status_isPlaying :: bool

record Sound =
  getStatusAsync :: "PlaybackStatus option"

text \<open>
  The handler calls \<open>playSong\<close> without awaiting it and then goes on to the position
  block, whose commands are issued from the \<open>then\<close> callback of \<open>getStatusAsync\<close>; the
  order between the two groups is not fixed by the source, so they are kept apart.
\<close>

record Reconciled =
  trackEffects :: "Effect list"
  positionEffects :: "Effect list"

text \<open>
  The handler (lines 1040-1132) for a snapshot \<open>doc\<close> (\<open>None\<close> when \<open>doc.exists()\<close> is
  false), at \<open>Date.now() = now\<close>. The position block runs when \<open>lastActionTime\<close> is
  truthy and \<open>lastActionSeekPosition !== undefined\<close>, that is, when neither is \<open>None\<close>. \<open>u\<close> is the user \<open>joinRoom\<close> checked, \<open>cr\<close> and \<open>st\<close>
  are \<open>currentRoom\<close> and \<open>state\<close> as the handler's closure sees them.
\<close>

definition onSnapshot_handler ::
  "User \<Rightarrow> string option \<Rightarrow> MusicState \<Rightarrow> Sound option \<Rightarrow> PlayIO \<Rightarrow> int \<Rightarrow> RoomData option \<Rightarrow> Reconciled" where
  "onSnapshot_handler u cr st soundRef io now doc =
     (case doc of
        None \<Rightarrow> \<lparr> trackEffects = [], positionEffects = [] \<rparr>
      | Some data \<Rightarrow>
          if lastActionByUserId data = Some (uid u)
          then \<lparr> trackEffects = [], positionEffects = [] \<rparr>
          else
            \<lparr> trackEffects =
                (if truthy_string (currentTrackId data) \<and>
                    currentTrackId data \<noteq> map_option song_id (currentSong st)
                 then (case find (\<lambda>s. Some (song_id s) = currentTrackId data) (queue st) of
                         None \<Rightarrow> []
                       | Some song \<Rightarrow>
                           (case playSong \<lparr> user = Some u, currentRoom = cr \<rparr> st
                                   (soundRef \<noteq> None) io song of
                              Inl e \<Rightarrow> []
                            | Inr fx \<Rightarrow> fx))
                 else []),
              positionEffects =
                (case lastActionTime data of
                   None \<Rightarrow> []
                 | Some lastActionTimeMillis \<Rightarrow>
                     (case lastActionSeekPosition data of
                        None \<Rightarrow> []
                      | Some p \<Rightarrow>
                          (let elapsedTime = of_int (now - lastActionTimeMillis) / 1000;
                               calculatedPosition = p + elapsedTime
                           in case soundRef of
                                None \<Rightarrow> []
                              | Some sound \<Rightarrow>
                                  (case getStatusAsync sound of
                                     None \<Rightarrow> []
                                   | Some status \<Rightarrow>
                                       if isLoaded status
                                       then [SetPositionAsync (calculatedPosition * 1000),
                                             SetState (SetCurrentTime calculatedPosition)] @
                                            (if room_isPlaying data \<noteq> Some (isPlaying st)
                                             then (if room_isPlaying data = Some True
                                                   then [PlayAsync, SetState (SetIsPlaying True)]
                                                   else [PauseAsync, SetState (SetIsPlaying False)])
                                             else [])
                                       else [])))) \<rparr>)"

section \<open>The store\<close>

type_synonym Store = "string \<Rightarrow> RoomData option"

text \<open>
  \<open>doc(db, 'rooms', roomId)\<close> of the Firestore SDK, which \<open>joinRoom\<close> calls before it
  reads anything. The SDK rejects a path that contains \<open>//\<close>, splits each argument at
  \<open>/\<close>, drops the empty pieces and rejects the result unless it has an even number of
  segments, as a document path has. With \<open>rooms\<close> in front, the room id has to come to
  an odd number of segments: the empty id and \<open>a/b\<close> are rejected, \<open>listening\<close> is a
  document of the collection.
\<close>

fun splitSlash :: "string \<Rightarrow> string \<Rightarrow> string list" where
  "splitSlash piece [] = [piece]"
| "splitSlash piece (c # cs) =
     (if c = CHR ''/'' then piece # splitSlash [] cs else splitSlash (piece @ [c]) cs)"

fun hasDoubleSlash :: "string \<Rightarrow> bool" where
  "hasDoubleSlash (a # b # cs) = ((a = CHR ''/'' \<and> b = CHR ''/'') \<or> hasDoubleSlash (b # cs))"
| "hasDoubleSlash cs = False"

definition doc_rooms :: "string \<Rightarrow> Error + string list" where
  "doc_rooms roomId =
     (if hasDoubleSlash roomId then Inl InvalidArgument
      else
        (let absolutePath = ''rooms'' # filter (\<lambda>segment. segment \<noteq> []) (splitSlash [] roomId)
         in if even (length absolutePath) then Inr absolutePath else Inl InvalidArgument))"

text \<open>
  The store is indexed by the room id as the code passes it; the statements below are
  each about one room id, and two spellings of one path are not related by them.

  \<open>updateDoc\<close> merges the fields of the literal into the document and leaves the
  others; the store resolves \<open>serverTimestamp()\<close> to its own clock \<open>serverNow\<close>.
  It rejects when the document does not exist.
\<close>

definition mergeFields :: "UpdateData \<Rightarrow> int \<Rightarrow> RoomData \<Rightarrow> RoomData" where
  "mergeFields upd serverNow d =
     d\<lparr> participants := (case u_participants upd of None \<Rightarrow> participants d | Some v \<Rightarrow> Some v),
        currentTrackId := (case u_currentTrackId upd of None \<Rightarrow> currentTrackId d | Some v \<Rightarrow> Some v),
        room_isPlaying := (case u_isPlaying upd of None \<Rightarrow> room_isPlaying d | Some v \<Rightarrow> Some v),
        lastActionTime := (case u_lastActionTime upd of None \<Rightarrow> lastActionTime d
                           | Some ServerTimestamp \<Rightarrow> Some serverNow),
        lastActionSeekPosition := (case u_lastActionSeekPosition upd of
                                     None \<Rightarrow> lastActionSeekPosition d | Some v \<Rightarrow> Some v),
        lastActionByUserId := (case u_lastActionByUserId upd of
                                 None \<Rightarrow> lastActionByUserId d | Some v \<Rightarrow> Some v) \<rparr>"

definition updateDoc :: "string \<Rightarrow> UpdateData \<Rightarrow> int \<Rightarrow> Store \<Rightarrow> Error + Store" where
  "updateDoc r upd serverNow store =
     (case store r of
        None \<Rightarrow> Inl NotFound
      | Some d \<Rightarrow> Inr (store(r \<mapsto> mergeFields upd serverNow d)))"

definition participantsData :: "Participant list \<Rightarrow> UpdateData" where
  "participantsData ps =
     \<lparr> u_participants = Some ps, u_currentTrackId = None, u_isPlaying = None,
       u_lastActionTime = None, u_lastActionSeekPosition = None,
       u_lastActionByUserId = None \<rparr>"

section \<open>Room membership\<close>

definition newParticipant :: "User \<Rightarrow> int \<Rightarrow> Participant" where
  "newParticipant u now = \<lparr> p_id = uid u, p_email = email u, p_joinedAt = now \<rparr>"

text \<open>The document \<open>joinRoom\<close> hands to \<open>setDoc\<close> when the room does not exist.\<close>

definition newRoom :: "string \<Rightarrow> User \<Rightarrow> int \<Rightarrow> int \<Rightarrow> RoomData" where
  "newRoom roomId u now serverNow =
     \<lparr> room_id = Some roomId,
       participants = Some [newParticipant u now],
       currentTrackId = None,
       room_isPlaying = Some False,
       lastActionTime = Some serverNow,
       lastActionSeekPosition = Some 0,
       lastActionByUserId = None,
       createdAt = Some now,
       otherFields = [] \<rparr>"

text \<open>\<open>roomData.participants || []\<close>\<close>

definition participantsOf :: "RoomData \<Rightarrow> Participant list" where
  "participantsOf d = (case participants d of None \<Rightarrow> [] | Some ps \<Rightarrow> ps)"

text \<open>
  \<open>joinRoom\<close> (lines 990-1033), up to \<open>setCurrentRoom\<close>; the subscription it then opens
  runs \<open>onSnapshot_handler\<close>. \<open>now\<close> is \<open>Date.now()\<close>. An error, that of a missing user
  or of \<open>doc\<close> rejecting the room id among them, is rethrown to the caller with
  nothing written.
\<close>

definition joinRoom :: "Session \<Rightarrow> string \<Rightarrow> int \<Rightarrow> int \<Rightarrow> Store \<Rightarrow> Error + (Session \<times> Store)" where
  "joinRoom s roomId now serverNow store =
     (case user s of
        None \<Rightarrow> Inl NotAuthenticated
      | Some u \<Rightarrow>
          (case doc_rooms roomId of
             Inl e \<Rightarrow> Inl e
           | Inr roomRef \<Rightarrow>
               (case store roomId of
                  None \<Rightarrow>
                    Inr (s\<lparr> currentRoom := Some roomId \<rparr>,
                         store(roomId \<mapsto> newRoom roomId u now serverNow))
                | Some roomData \<Rightarrow>
                    (case find (\<lambda>p. p_id p = uid u) (participantsOf roomData) of
                       None \<Rightarrow>
                         (case updateDoc roomId
                                 (participantsData
                                    (participantsOf roomData @ [newParticipant u now]))
                                 serverNow store of
                            Inl e \<Rightarrow> Inl e
                          | Inr store' \<Rightarrow> Inr (s\<lparr> currentRoom := Some roomId \<rparr>, store'))
                     | Some existingParticipant \<Rightarrow>
                         Inr (s\<lparr> currentRoom := Some roomId \<rparr>, store)))))"

text \<open>
  \<open>leaveRoom\<close> (lines 1141-1181): the store part and \<open>setCurrentRoom(null)\<close>. The room
  it leaves is the one in \<open>currentRoom\<close>, which only \<open>joinRoom\<close> sets, after \<open>doc\<close> has
  taken the id.
\<close>

definition leaveRoom :: "Session \<Rightarrow> int \<Rightarrow> Store \<Rightarrow> Error + (Session \<times> Store)" where
  "leaveRoom s serverNow store =
     (case user s of
        None \<Rightarrow> Inr (s, store)
      | Some u \<Rightarrow>
          (case currentRoom s of
             None \<Rightarrow> Inr (s, store)
           | Some r \<Rightarrow>
               if r = [] then Inr (s, store)
               else
                 (case store r of
                    None \<Rightarrow> Inr (s\<lparr> currentRoom := None \<rparr>, store)
                  | Some roomData \<Rightarrow>
                      (case updateDoc r
                              (participantsData
                                 (filter (\<lambda>p. p_id p \<noteq> uid u) (participantsOf roomData)))
                              serverNow store of
                         Inl e \<Rightarrow> Inl e
                       | Inr store' \<Rightarrow> Inr (s\<lparr> currentRoom := None \<rparr>, store')))))"

text \<open>The number of entries a user has in the roster of a document.\<close>

definition entriesOf :: "string \<Rightarrow> RoomData \<Rightarrow> nat" where
  "entriesOf i d = length (filter (\<lambda>p. p_id p = i) (participantsOf d))"

section \<open>A run of seek calls\<close>

text \<open>
  A client that calls \<open>updateSeekPosition\<close> at the clock readings of \<open>calls\<close>, with the
  runtime firing the due timers before each call, and that is then left alone until
  the clock reads \<open>final\<close>. The result is the timers and every request sent.
\<close>

fun seekCalls :: "Session \<Rightarrow> (int \<times> rat) list \<Rightarrow> Timers \<times> Effect list \<Rightarrow> Timers \<times> Effect list" where
  "seekCalls s [] acc = acc"
| "seekCalls s ((t, pos) # cs) (tm, fx) =
     (let (tm1, fx1) = runTimers t tm
      in case updateSeekPosition s t pos tm1 of
           Inl e \<Rightarrow> (tm1, fx @ fx1)
         | Inr tm2 \<Rightarrow> seekCalls s cs (tm2, fx @ fx1))"

definition debounceRun :: "Session \<Rightarrow> (int \<times> rat) list \<Rightarrow> int \<Rightarrow> Timers \<Rightarrow> Timers \<times> Effect list" where
  "debounceRun s calls final tm =
     (let (tm1, fx1) = seekCalls s calls (tm, []);
          (tm2, fx2) = runTimers final tm1
      in (tm2, fx1 @ fx2))"

text \<open>
  Each call comes no earlier than the one before it and before that one's 500 ms have
  run out.
\<close>

fun withinWindow :: "(int \<times> rat) list \<Rightarrow> bool" where
  "withinWindow [] = True"
| "withinWindow [c] = True"
| "withinWindow (c1 # c2 # cs) =
     (fst c1 \<le> fst c2 \<and> fst c2 < fst c1 + 500 \<and> withinWindow (c2 # cs))"

section \<open>Notions used in the statements\<close>


text \<open>
  The calls of \<open>playSong\<close> up to \<open>createAsync\<close> do not reject (\<open>stopAsync\<close> and
  \<open>unloadAsync\<close> are only called when a sound is loaded).
\<close>

definition audioSucceeds :: "bool \<Rightarrow> PlayIO \<Rightarrow> bool" where
  "audioSucceeds hasSound io =
     ((hasSound \<longrightarrow> stopOk io \<and> unloadOk io) \<and> infoOk io \<and> createOk io)"

text \<open>The value of \<open>songUrl\<close> when \<open>playSong\<close> reaches \<open>createAsync\<close>.\<close>

definition songUrlOf :: "PlayIO \<Rightarrow> Song \<Rightarrow> string" where
  "songUrlOf io song =
     (if cached io \<or> (cacheDirOk io \<and> downloadOk io) then SONG_CACHE_DIR io @ song_id song
      else song_url song)"

text \<open>
  Exactly one timer is pending: the one \<open>seekDebounceRef\<close> holds, for room \<open>r\<close> and
  user \<open>i\<close>, with the given deadline and position.
\<close>

definition armed :: "string \<Rightarrow> string \<Rightarrow> int \<Rightarrow> rat \<Rightarrow> Timers \<Rightarrow> bool" where
  "armed r i deadline pos tm =
     (case pending tm of
        [x] \<Rightarrow> seekDebounceRef tm = Some (t_id x) \<and> t_deadline x = deadline \<and>
                t_pos x = pos \<and> t_room x = r \<and> t_uid x = i
      | _ \<Rightarrow> False)"

section \<open>Example inputs\<close>

definition bob :: User where
  "bob = \<lparr> uid = ''B'', email = ''bob@example.org'' \<rparr>"

definition songX :: Song where
  "songX = \<lparr> song_id = ''x'', song_title = ''X'', song_artist = ''a'',
             song_url = ''https://s/x'', song_duration = 180 \<rparr>"

definition songY :: Song where
  "songY = \<lparr> song_id = ''y'', song_title = ''Y'', song_artist = ''a'',
             song_url = ''https://s/y'', song_duration = 200 \<rparr>"

text \<open>The local client is playing \<open>songY\<close>.\<close>

definition playingY :: MusicState where
  "playingY = \<lparr> currentSong = Some songY, isPlaying = True, currentTime = 12,
                duration = 200, queue = [songY, songX], volume = 1 \<rparr>"

text \<open>A client that has not played anything yet.\<close>

definition nothingLoaded :: MusicState where
  "nothingLoaded = \<lparr> currentSong = None, isPlaying = False, currentTime = 0,
                     duration = 0, queue = [songY, songX], volume = 1 \<rparr>"

definition soundAt :: "rat \<Rightarrow> Sound" where
  "soundAt ms = \<lparr> getStatusAsync =
                    Some \<lparr> isLoaded = True, positionMillis = ms, status_isPlaying = True \<rparr> \<rparr>"

definition ioOk :: PlayIO where
  "ioOk = \<lparr> documentDirectory = ''file:///data/'', stopOk = True, unloadOk = True,
            infoOk = True, cached = True, cacheDirOk = True, downloadOk = True,
            createOk = True, widgetOk = True \<rparr>"

text \<open>
  A document last written by user \<open>A\<close> at server time 1000 ms, at position 30 s.
\<close>

definition pivot :: "string \<Rightarrow> bool \<Rightarrow> string \<Rightarrow> RoomData" where
  "pivot track playing writer =
     \<lparr> room_id = Some ''listening'',
       participants = Some [\<lparr> p_id = ''A'', p_email = ''alice@example.org'', p_joinedAt = 5 \<rparr>],
       currentTrackId = Some track,
       room_isPlaying = Some playing,
       lastActionTime = Some 1000,
       lastActionSeekPosition = Some 30,
       lastActionByUserId = Some writer,
       createdAt = Some 5,
       otherFields = [(''likes.y.A'', ''like'')] \<rparr>"

definition rooms :: Store where
  "rooms = Map.empty(''listening'' \<mapsto> pivot ''y'' True ''A'')"

definition bobIn :: "string option \<Rightarrow> Session" where
  "bobIn r = \<lparr> user = Some bob, currentRoom = r \<rparr>"

definition idle :: Timers where
  "idle = \<lparr> seekDebounceRef = None, pending = [], nextId = 1 \<rparr>"

section \<open>Publishers outside a room\<close>

text \<open>
  C10. When the client is not in a room or has no authenticated user, each of
  \<open>updatePlayPauseState\<close>, \<open>updateSeekPosition\<close> and \<open>updateTrack\<close> returns normally
  without any request to the store; \<open>updateSeekPosition\<close> also leaves the timers as
  they were, so no write follows later either.
\<close>

theorem publish_noop_outside_room:
  "\<not> in_room s \<Longrightarrow>
     updatePlayPauseState s playing pos = Inr [] \<and>
     updateTrack s song = Inr [] \<and>
     updateSeekPosition s now pos tm = Inr tm"
  by (auto simp: in_room_def truthy_string_def updatePlayPauseState_def updateTrack_def
        updateSeekPosition_def split: option.splits)

theorem publish_noop_outside_room_witness:
  "\<not> in_room \<lparr> user = Some \<lparr> uid = ''A'', email = ''a@x'' \<rparr>, currentRoom = None \<rparr> \<and>
   updatePlayPauseState \<lparr> user = Some \<lparr> uid = ''A'', email = ''a@x'' \<rparr>, currentRoom = None \<rparr>
     True 12 = Inr [] \<and>
   updateTrack \<lparr> user = Some \<lparr> uid = ''A'', email = ''a@x'' \<rparr>, currentRoom = None \<rparr>
     \<lparr> song_id = ''x'', song_title = ''t'', song_artist = ''a'', song_url = ''u'',
       song_duration = 0 \<rparr> = Inr [] \<and>
   updateSeekPosition \<lparr> user = Some \<lparr> uid = ''A'', email = ''a@x'' \<rparr>, currentRoom = None \<rparr>
     1000 12 \<lparr> seekDebounceRef = None, pending = [], nextId = 1 \<rparr>
     = Inr \<lparr> seekDebounceRef = None, pending = [], nextId = 1 \<rparr>"
  using publish_noop_outside_room
    [of "\<lparr> user = Some \<lparr> uid = ''A'', email = ''a@x'' \<rparr>, currentRoom = None \<rparr>"
        True 12
        "\<lparr> song_id = ''x'', song_title = ''t'', song_artist = ''a'', song_url = ''u'',
           song_duration = 0 \<rparr>"
        1000 "\<lparr> seekDebounceRef = None, pending = [], nextId = 1 \<rparr>"]
  by (simp add: in_room_def truthy_string_def)


section \<open>Remote reconciler: position block\<close>

lemma positionEffects_loaded:
  assumes "lastActionByUserId data \<noteq> Some (uid u)"
    and "lastActionTime data = Some t"
    and "lastActionSeekPosition data = Some p"
    and "soundRef = Some sound"
    and "getStatusAsync sound = Some status"
    and "isLoaded status"
  shows "positionEffects (onSnapshot_handler u cr st soundRef io now (Some data)) =
           [SetPositionAsync ((p + of_int (now - t) / 1000) * 1000),
            SetState (SetCurrentTime (p + of_int (now - t) / 1000))] @
           (if room_isPlaying data \<noteq> Some (isPlaying st)
            then (if room_isPlaying data = Some True
                  then [PlayAsync, SetState (SetIsPlaying True)]
                  else [PauseAsync, SetState (SetIsPlaying False)])
            else [])"
  using assms by (simp add: onSnapshot_handler_def Let_def)

text \<open>
  C2. A snapshot whose \<open>lastActionByUserId\<close> is the local user's id makes the handler
  return at once: no call on the sound, no \<open>playSong\<close>, no \<open>setState\<close> and no request
  to the store, whatever the other fields, the clock, the local state and the sound
  are; the local playback state stays as it was.
\<close>

theorem self_echo_suppressed:
  "lastActionByUserId data = Some (uid u) \<Longrightarrow>
     onSnapshot_handler u cr st soundRef io now (Some data)
       = \<lparr> trackEffects = [], positionEffects = [] \<rparr> \<and>
     stateAfter (trackEffects (onSnapshot_handler u cr st soundRef io now (Some data)) @
                 positionEffects (onSnapshot_handler u cr st soundRef io now (Some data))) st = st"
  by (simp add: onSnapshot_handler_def)

theorem self_echo_suppressed_witness:
  "lastActionByUserId (pivot ''x'' False ''B'') = Some (uid bob) \<and>
   onSnapshot_handler bob (Some ''listening'') playingY (Some (soundAt 0)) ioOk 6000
       (Some (pivot ''x'' False ''B''))
     = \<lparr> trackEffects = [], positionEffects = [] \<rparr> \<and>
   stateAfter
     (trackEffects (onSnapshot_handler bob (Some ''listening'') playingY (Some (soundAt 0)) ioOk
        6000 (Some (pivot ''x'' False ''B''))) @
      positionEffects (onSnapshot_handler bob (Some ''listening'') playingY (Some (soundAt 0)) ioOk
        6000 (Some (pivot ''x'' False ''B'')))) playingY = playingY"
  using self_echo_suppressed
    [of "pivot ''x'' False ''B''" bob "Some ''listening''" playingY "Some (soundAt 0)" ioOk 6000]
  by (simp add: pivot_def bob_def)

text \<open>
  C1, as the code has it. For a snapshot written by another user with
  \<open>isPlaying = false\<close>, with \<open>lastActionTime\<close> and \<open>lastActionSeekPosition\<close> present and a
  loaded sound, the handler seeks to
  \<open>lastActionSeekPosition + (now - lastActionTime) / 1000\<close> seconds and sets
  \<open>currentTime\<close> to it: the elapsed time is added for a paused pivot as well, so the
  position is \<open>lastActionSeekPosition\<close> only when \<open>now = lastActionTime\<close>. The sound is
  paused if the local state says playing.
\<close>

theorem paused_pivot_adds_elapsed:
  assumes "lastActionByUserId data \<noteq> Some (uid u)"
    and "room_isPlaying data = Some False"
    and "lastActionTime data = Some t"
    and "lastActionSeekPosition data = Some p"
    and "soundRef = Some sound"
    and "getStatusAsync sound = Some status"
    and "isLoaded status"
  shows "positionEffects (onSnapshot_handler u cr st soundRef io now (Some data)) =
           [SetPositionAsync ((p + of_int (now - t) / 1000) * 1000),
            SetState (SetCurrentTime (p + of_int (now - t) / 1000))] @
           (if isPlaying st then [PauseAsync, SetState (SetIsPlaying False)] else []) \<and>
         ((p + of_int (now - t) / 1000 = p) = (now = t))"
  using positionEffects_loaded [OF assms(1) assms(3-7), of cr st io now] assms(2)
  by simp

theorem paused_pivot_adds_elapsed_witness:
  "lastActionByUserId (pivot ''y'' False ''A'') \<noteq> Some (uid bob) \<and>
   room_isPlaying (pivot ''y'' False ''A'') = Some False \<and>
   lastActionTime (pivot ''y'' False ''A'') = Some 1000 \<and>
   lastActionSeekPosition (pivot ''y'' False ''A'') = Some 30 \<and>
   positionEffects (onSnapshot_handler bob (Some ''listening'') playingY (Some (soundAt 20000))
       ioOk 4000 (Some (pivot ''y'' False ''A'')))
     = [SetPositionAsync 33000, SetState (SetCurrentTime 33), PauseAsync,
        SetState (SetIsPlaying False)]"
  using paused_pivot_adds_elapsed
    [of "pivot ''y'' False ''A''" bob 1000 30 "Some (soundAt 20000)" "soundAt 20000"
        "\<lparr> isLoaded = True, positionMillis = 20000, status_isPlaying = True \<rparr>"
        "Some ''listening''" playingY ioOk 4000]
  by (simp add: pivot_def bob_def soundAt_def playingY_def)

text \<open>
  The paused pivot (position 30 s, written at 1000 ms) received at \<open>now = 6000\<close>: the
  handler seeks to 35 s, not to 30 s.
\<close>

theorem paused_pivot_counterexample:
  "room_isPlaying (pivot ''y'' False ''A'') = Some False \<and>
   lastActionSeekPosition (pivot ''y'' False ''A'') = Some 30 \<and>
   positionEffects (onSnapshot_handler bob (Some ''listening'') playingY (Some (soundAt 30000))
       ioOk 6000 (Some (pivot ''y'' False ''A'')))
     = [SetPositionAsync 35000, SetState (SetCurrentTime 35), PauseAsync,
        SetState (SetIsPlaying False)] \<and>
   SetPositionAsync (30 * 1000)
     \<notin> set (positionEffects (onSnapshot_handler bob (Some ''listening'') playingY
                (Some (soundAt 30000)) ioOk 6000 (Some (pivot ''y'' False ''A''))))"
  by (simp add: onSnapshot_handler_def pivot_def bob_def soundAt_def playingY_def songY_def)

text \<open>
  C3, as the code has it. For a snapshot written by another user with
  \<open>isPlaying = true\<close>, with \<open>lastActionTime = t\<close> and \<open>lastActionSeekPosition = p\<close> and a
  loaded sound, the handler seeks to \<open>p + (now - t) / 1000\<close> seconds for every \<open>now\<close>,
  and \<open>calculateCurrentPosition\<close> computes the same value; nothing clamps the elapsed
  time at 0. For every \<open>now \<ge> t\<close> this is \<open>p + max(0, (now - t) / 1000)\<close>.
\<close>

theorem playing_pivot_unclamped:
  assumes "lastActionByUserId data \<noteq> Some (uid u)"
    and "room_isPlaying data = Some True"
    and "lastActionTime data = Some t"
    and "lastActionSeekPosition data = Some p"
    and "soundRef = Some sound"
    and "getStatusAsync sound = Some status"
    and "isLoaded status"
  shows "positionEffects (onSnapshot_handler u cr st soundRef io now (Some data)) =
           [SetPositionAsync ((p + of_int (now - t) / 1000) * 1000),
            SetState (SetCurrentTime (p + of_int (now - t) / 1000))] @
           (if isPlaying st then [] else [PlayAsync, SetState (SetIsPlaying True)]) \<and>
         calculateCurrentPosition (Some t) p now = p + of_int (now - t) / 1000 \<and>
         (t \<le> now \<longrightarrow> p + of_int (now - t) / 1000 = p + max 0 (of_int (now - t) / 1000))"
  using positionEffects_loaded [OF assms(1) assms(3-7), of cr st io now] assms(2)
  by (simp add: calculateCurrentPosition_def)

theorem playing_pivot_unclamped_witness:
  "lastActionByUserId (pivot ''y'' True ''A'') \<noteq> Some (uid bob) \<and>
   room_isPlaying (pivot ''y'' True ''A'') = Some True \<and>
   lastActionTime (pivot ''y'' True ''A'') = Some 1000 \<and>
   lastActionSeekPosition (pivot ''y'' True ''A'') = Some 30 \<and>
   positionEffects (onSnapshot_handler bob (Some ''listening'') playingY (Some (soundAt 10000))
       ioOk 3500 (Some (pivot ''y'' True ''A'')))
     = [SetPositionAsync 32500, SetState (SetCurrentTime (65 / 2))] \<and>
   calculateCurrentPosition (Some 1000) 30 3500 = 65 / 2 \<and>
   (1000 \<le> (3500::int) \<and> (65 / 2 :: rat) = 30 + max 0 (of_int (3500 - 1000) / 1000))"
  using playing_pivot_unclamped
    [of "pivot ''y'' True ''A''" bob 1000 30 "Some (soundAt 10000)" "soundAt 10000"
        "\<lparr> isLoaded = True, positionMillis = 10000, status_isPlaying = True \<rparr>"
        "Some ''listening''" playingY ioOk 3500]
  by (simp add: pivot_def bob_def soundAt_def playingY_def)

text \<open>
  The playing pivot (position 30 s, written at server time 1000 ms) received when the
  local clock reads 500 ms: the code gives 29.5 s, the clamped formula 30 s.
\<close>

theorem playing_pivot_counterexample:
  "calculateCurrentPosition (Some 1000) 30 500 = 59 / 2 \<and>
   calculateCurrentPosition (Some 1000) 30 500 \<noteq> 30 + max 0 (of_int (500 - 1000) / 1000) \<and>
   positionEffects (onSnapshot_handler bob (Some ''listening'') playingY (Some (soundAt 0))
       ioOk 500 (Some (pivot ''y'' True ''A'')))
     = [SetPositionAsync 29500, SetState (SetCurrentTime (59 / 2))]"
  by (simp add: calculateCurrentPosition_def onSnapshot_handler_def pivot_def bob_def
      soundAt_def playingY_def songY_def)

text \<open>
  C6, as the code has it. In the same-track step (the snapshot of another user names
  the track that is loaded locally), with \<open>lastActionTime\<close> and
  \<open>lastActionSeekPosition\<close> present and a loaded sound, the handler always seeks to
  the calculated position, whatever position the sound reports: there is no
  tolerance test. \<open>playSong\<close> is not called.
\<close>

theorem same_track_always_seeks:
  assumes "lastActionByUserId data \<noteq> Some (uid u)"
    and "currentTrackId data = map_option song_id (currentSong st)"
    and "lastActionTime data = Some t"
    and "lastActionSeekPosition data = Some p"
    and "soundRef = Some sound"
    and "getStatusAsync sound = Some status"
    and "isLoaded status"
  shows "trackEffects (onSnapshot_handler u cr st soundRef io now (Some data)) = [] \<and>
         positionEffects (onSnapshot_handler u cr st soundRef io now (Some data)) =
           [SetPositionAsync ((p + of_int (now - t) / 1000) * 1000),
            SetState (SetCurrentTime (p + of_int (now - t) / 1000))] @
           (if room_isPlaying data \<noteq> Some (isPlaying st)
            then (if room_isPlaying data = Some True
                  then [PlayAsync, SetState (SetIsPlaying True)]
                  else [PauseAsync, SetState (SetIsPlaying False)])
            else [])"
proof -
  have "trackEffects (onSnapshot_handler u cr st soundRef io now (Some data)) = []"
    using assms(1,2) by (simp add: onSnapshot_handler_def)
  then show ?thesis
    using positionEffects_loaded [OF assms(1) assms(3-7), of cr st io now] by simp
qed

theorem same_track_always_seeks_witness:
  "lastActionByUserId (pivot ''y'' True ''A'') \<noteq> Some (uid bob) \<and>
   currentTrackId (pivot ''y'' True ''A'') = map_option song_id (currentSong playingY) \<and>
   trackEffects (onSnapshot_handler bob (Some ''listening'') playingY (Some (soundAt 31999))
       ioOk 3000 (Some (pivot ''y'' True ''A''))) = [] \<and>
   positionEffects (onSnapshot_handler bob (Some ''listening'') playingY (Some (soundAt 31999))
       ioOk 3000 (Some (pivot ''y'' True ''A'')))
     = [SetPositionAsync 32000, SetState (SetCurrentTime 32)]"
  using same_track_always_seeks
    [of "pivot ''y'' True ''A''" bob playingY 1000 30 "Some (soundAt 31999)" "soundAt 31999"
        "\<lparr> isLoaded = True, positionMillis = 31999, status_isPlaying = True \<rparr>"
        "Some ''listening''" ioOk 3000]
  by (simp add: pivot_def bob_def soundAt_def playingY_def songY_def)

text \<open>
  The sound reports 35000 ms, which is the calculated position itself (30 s plus the
  5 s from 1000 ms to 6000 ms): the seek is commanded all the same.
\<close>

theorem same_track_seek_counterexample:
  "getStatusAsync (soundAt 35000)
     = Some \<lparr> isLoaded = True, positionMillis = 35000, status_isPlaying = True \<rparr> \<and>
   positionEffects (onSnapshot_handler bob (Some ''listening'') playingY (Some (soundAt 35000))
       ioOk 6000 (Some (pivot ''y'' True ''A'')))
     = [SetPositionAsync 35000, SetState (SetCurrentTime 35)]"
  by (simp add: onSnapshot_handler_def pivot_def bob_def soundAt_def playingY_def songY_def)


section \<open>Remote reconciler: track change\<close>

lemma playSong_returns: "\<exists>fx. playSong s st hs io song = Inr fx"
  by (auto simp: playSong_def Let_def updateTrack_def split: option.splits sum.splits)

lemma playSong_no_seek:
  "playSong s st hs io song = Inr fx \<Longrightarrow> SetPositionAsync x \<notin> set fx"
  by (auto simp: playSong_def Let_def updateTrack_def split: option.splits sum.splits if_splits)

lemma playSong_loads:
  assumes "audioSucceeds hs io" and "playSong s st hs io song = Inr fx"
  shows "CreateAsync (songUrlOf io song) True (volume st) \<in> set fx \<and>
         SetState (NowPlaying song) \<in> set fx"
  using assms
  by (auto simp: playSong_def Let_def updateTrack_def audioSucceeds_def songUrlOf_def
      split: option.splits sum.splits if_splits)

lemma playSong_state:
  assumes "audioSucceeds hs io" and "playSong s st hs io song = Inr fx"
  shows "stateAfter fx st' =
           st'\<lparr> currentSong := Some song, isPlaying := True, currentTime := 0,
                duration := song_duration song \<rparr>"
  using assms
  by (auto simp: playSong_def Let_def updateTrack_def audioSucceeds_def
      split: option.splits sum.splits if_splits)



lemma trackEffects_playSong:
  assumes "lastActionByUserId data \<noteq> Some (uid u)"
    and "truthy_string (currentTrackId data)"
    and "currentTrackId data \<noteq> map_option song_id (currentSong st)"
    and "find (\<lambda>s. Some (song_id s) = currentTrackId data) (queue st) = Some song"
  shows "playSong \<lparr> user = Some u, currentRoom = cr \<rparr> st (soundRef \<noteq> None) io song =
           Inr (trackEffects (onSnapshot_handler u cr st soundRef io now (Some data)))"
proof -
  obtain fx where
    "playSong \<lparr> user = Some u, currentRoom = cr \<rparr> st (soundRef \<noteq> None) io song = Inr fx"
    using playSong_returns by blast
  then show ?thesis using assms by (simp add: onSnapshot_handler_def)
qed

text \<open>
  C5, as the code has it. For a snapshot written by another user whose
  \<open>currentTrackId\<close> differs from the locally loaded track and is found in the local
  queue, the handler calls \<open>playSong\<close> on the track found, whatever the local play
  state and sound are. When the audio calls succeed, \<open>playSong\<close> creates the sound with
  \<open>shouldPlay = true\<close> and no start position and sets the local state to this track,
  playing, at \<open>currentTime = 0\<close>: the track starts at 0, and \<open>lastActionSeekPosition\<close> is
  not handed to \<open>playSong\<close>, which issues no seek. The position block seeks only a
  sound that was already there when the snapshot came; with none, nothing is sought.
\<close>

theorem track_change_plays_from_start:
  assumes "lastActionByUserId data \<noteq> Some (uid u)"
    and "truthy_string (currentTrackId data)"
    and "currentTrackId data \<noteq> map_option song_id (currentSong st)"
    and "find (\<lambda>s. Some (song_id s) = currentTrackId data) (queue st) = Some song"
    and "audioSucceeds (soundRef \<noteq> None) io"
  shows "CreateAsync (songUrlOf io song) True (volume st)
           \<in> set (trackEffects (onSnapshot_handler u cr st soundRef io now (Some data))) \<and>
         SetState (NowPlaying song)
           \<in> set (trackEffects (onSnapshot_handler u cr st soundRef io now (Some data))) \<and>
         SetPositionAsync x
           \<notin> set (trackEffects (onSnapshot_handler u cr st soundRef io now (Some data))) \<and>
         stateAfter (trackEffects (onSnapshot_handler u cr st soundRef io now (Some data))) st
           = st\<lparr> currentSong := Some song, isPlaying := True, currentTime := 0,
                 duration := song_duration song \<rparr> \<and>
         (soundRef = None \<longrightarrow>
            positionEffects (onSnapshot_handler u cr st soundRef io now (Some data)) = [])"
proof -
  let ?T = "trackEffects (onSnapshot_handler u cr st soundRef io now (Some data))"
  have run: "playSong \<lparr> user = Some u, currentRoom = cr \<rparr> st (soundRef \<noteq> None) io song = Inr ?T"
    using assms(1-4) by (rule trackEffects_playSong)
  have "soundRef = None \<longrightarrow>
          positionEffects (onSnapshot_handler u cr st soundRef io now (Some data)) = []"
    using assms(1) by (simp add: onSnapshot_handler_def split: option.splits)
  then show ?thesis
    using playSong_loads [OF assms(5) run] playSong_no_seek [OF run, of x]
      playSong_state [OF assms(5) run, of st]
    by simp
qed

theorem track_change_plays_from_start_witness:
  "lastActionByUserId (pivot ''x'' False ''A'') \<noteq> Some (uid bob) \<and>
   truthy_string (currentTrackId (pivot ''x'' False ''A'')) \<and>
   currentTrackId (pivot ''x'' False ''A'') \<noteq> map_option song_id (currentSong playingY) \<and>
   find (\<lambda>s. Some (song_id s) = currentTrackId (pivot ''x'' False ''A'')) (queue playingY)
     = Some songX \<and>
   audioSucceeds (Some (soundAt 500) \<noteq> None) ioOk \<and>
   CreateAsync ''file:///data/song-cache/x'' True 1
     \<in> set (trackEffects (onSnapshot_handler bob (Some ''listening'') playingY
               (Some (soundAt 500)) ioOk 6000 (Some (pivot ''x'' False ''A'')))) \<and>
   SetPositionAsync 35000
     \<notin> set (trackEffects (onSnapshot_handler bob (Some ''listening'') playingY
               (Some (soundAt 500)) ioOk 6000 (Some (pivot ''x'' False ''A'')))) \<and>
   currentTime (stateAfter (trackEffects (onSnapshot_handler bob (Some ''listening'') playingY
               (Some (soundAt 500)) ioOk 6000 (Some (pivot ''x'' False ''A'')))) playingY) = 0"
  using track_change_plays_from_start
    [where data = "pivot ''x'' False ''A''" and u = bob and st = playingY and song = songX
       and soundRef = "Some (soundAt 500)" and io = ioOk and x = 35000
       and cr = "Some ''listening''" and now = 6000]
  by (simp add: pivot_def bob_def playingY_def songX_def songY_def ioOk_def audioSucceeds_def
      truthy_string_def songUrlOf_def SONG_CACHE_DIR_def)

text \<open>
  A client with no sound loaded receives another user's change to track \<open>x\<close> with
  \<open>lastActionSeekPosition = 30\<close>: the sound is created playing with no position, the
  local \<open>currentTime\<close> is set to 0 and no seek is commanded at all, neither to 30 s nor
  to the projected 35 s.
\<close>

theorem track_change_counterexample:
  "lastActionSeekPosition (pivot ''x'' True ''A'') = Some 30 \<and>
   onSnapshot_handler bob (Some ''listening'') nothingLoaded None ioOk 6000
       (Some (pivot ''x'' True ''A''))
     = \<lparr> trackEffects =
           [CreateAsync ''file:///data/song-cache/x'' True 1,
            SetState (NowPlaying songX),
            ShowWidget songX True 0,
            UpdateDoc ''listening'' (trackData songX ''B''),
            SetLastPlayedBy ''bob'',
            ClearSongMood],
         positionEffects = [] \<rparr> \<and>
   currentTime (applyUpdate (NowPlaying songX) nothingLoaded) = 0"
  by (simp add: onSnapshot_handler_def playSong_def updateTrack_def pivot_def bob_def
      nothingLoaded_def songX_def songY_def ioOk_def truthy_string_def SONG_CACHE_DIR_def
      displayName_def Let_def)




section \<open>Room membership\<close>

lemma find_None_filter: "find P xs = None \<Longrightarrow> filter P xs = []"
  by (induction xs) (auto split: if_splits)

lemma find_Some_filter: "find P xs = Some x \<Longrightarrow> filter P xs \<noteq> []"
  by (induction xs) (auto split: if_splits)

lemma joinRoom_rejected:
  assumes "doc_rooms r = Inl e"
  shows "\<exists>e'. joinRoom s r now serverNow store = Inl e'"
  using assms by (simp add: joinRoom_def split: option.splits)

lemma joinRoom_present:
  assumes "user s = Some u" and "doc_rooms r = Inr path"
    and "store r = Some d" and "entriesOf (uid u) d \<noteq> 0"
  shows "joinRoom s r now serverNow store = Inr (s\<lparr> currentRoom := Some r \<rparr>, store)"
proof -
  have "find (\<lambda>p. p_id p = uid u) (participantsOf d) \<noteq> None"
    using assms(4) find_None_filter [of "\<lambda>p. p_id p = uid u" "participantsOf d"]
    by (auto simp: entriesOf_def)
  then show ?thesis using assms(1-3) by (auto simp: joinRoom_def)
qed

lemma joinRoom_absent:
  assumes "user s = Some u" and "doc_rooms r = Inr path"
    and "store r = Some d" and "entriesOf (uid u) d = 0"
  shows "joinRoom s r now serverNow store =
           Inr (s\<lparr> currentRoom := Some r \<rparr>,
                store(r \<mapsto> d\<lparr> participants := Some (participantsOf d @ [newParticipant u now]) \<rparr>))"
proof -
  have "find (\<lambda>p. p_id p = uid u) (participantsOf d) = None"
  proof (cases "find (\<lambda>p. p_id p = uid u) (participantsOf d)")
    case None
    then show ?thesis .
  next
    case (Some x)
    then show ?thesis
      using find_Some_filter [OF Some] assms(4) by (simp add: entriesOf_def)
  qed
  then show ?thesis using assms(1-3)
    by (simp add: joinRoom_def updateDoc_def mergeFields_def participantsData_def)
qed

lemma joinRoom_create:
  assumes "user s = Some u" and "doc_rooms r = Inr path" and "store r = None"
  shows "joinRoom s r now serverNow store =
           Inr (s\<lparr> currentRoom := Some r \<rparr>, store(r \<mapsto> newRoom r u now serverNow))"
  using assms by (simp add: joinRoom_def)

lemma entriesOf_newRoom: "entriesOf (uid u) (newRoom r u now serverNow) = 1"
  by (simp add: entriesOf_def newRoom_def participantsOf_def newParticipant_def)

lemma entriesOf_appended:
  "entriesOf i (d\<lparr> participants := Some (participantsOf d @ [newParticipant u now]) \<rparr>) =
     entriesOf i d + (if uid u = i then 1 else 0)"
  by (simp add: entriesOf_def participantsOf_def newParticipant_def)

text \<open>
  A roster in which no id occurs twice stays so under \<open>joinRoom\<close>: the hypothesis of
  the theorem below holds in every room that only \<open>joinRoom\<close> has written the roster
  of, one call after the other.
\<close>

lemma joinRoom_keeps_single_entries:
  assumes "joinRoom s r now serverNow store = Inr (s', store')"
    and "store r = Some d" and "entriesOf i d \<le> 1"
  shows "\<exists>d'. store' r = Some d' \<and> entriesOf i d' \<le> 1"
proof -
  obtain u where u: "user s = Some u"
    using assms(1) by (cases "user s") (simp_all add: joinRoom_def)
  obtain path where path: "doc_rooms r = Inr path"
    using assms(1) u by (cases "doc_rooms r") (simp_all add: joinRoom_def)
  show ?thesis
  proof (cases "entriesOf (uid u) d = 0")
    case True
    then show ?thesis
      using joinRoom_absent [where s = s and u = u and r = r and path = path and store = store
          and d = d and now = now and serverNow = serverNow] u path assms
      by (auto simp: entriesOf_appended)
  next
    case False
    then show ?thesis
      using joinRoom_present [where s = s and u = u and r = r and path = path and store = store
          and d = d and now = now and serverNow = serverNow] u path assms
      by auto
  qed
qed

text \<open>
  C7. An authenticated user who calls \<open>joinRoom\<close> twice in succession for the same
  room id, one that \<open>doc\<close> takes as the path of a document, has exactly one entry in
  the \<open>participants\<close> of the room document afterwards, and the second call changes
  nothing in the store. The room may be absent or present before the first call;
  when present, its roster holds the user at most once (the roster is keyed by
  participant id). For an id that \<open>doc\<close> rejects both calls throw and write nothing
  (\<open>joinRoom_rejected\<close>).
\<close>

theorem join_twice_one_entry:
  assumes "user s = Some u"
    and "doc_rooms r = Inr path"
    and "\<And>d. store r = Some d \<Longrightarrow> entriesOf (uid u) d \<le> 1"
  shows "\<exists>s1 store1 d1.
           joinRoom s r now1 serverNow1 store = Inr (s1, store1) \<and>
           joinRoom s1 r now2 serverNow2 store1 = Inr (s1, store1) \<and>
           store1 r = Some d1 \<and> entriesOf (uid u) d1 = 1"
proof -
  have first: "\<exists>s1 store1 d1. joinRoom s r now1 serverNow1 store = Inr (s1, store1) \<and>
      user s1 = Some u \<and> currentRoom s1 = Some r \<and> store1 r = Some d1 \<and>
      entriesOf (uid u) d1 = 1"
  proof (cases "store r")
    case None
    then show ?thesis
      using joinRoom_create [where s = s and u = u and r = r and path = path and store = store
          and now = now1 and serverNow = serverNow1] assms(1,2)
      by (simp add: entriesOf_newRoom)
  next
    case (Some d)
    show ?thesis
    proof (cases "entriesOf (uid u) d = 0")
      case True
      then show ?thesis
        using joinRoom_absent [where s = s and u = u and r = r and path = path
            and store = store and d = d and now = now1 and serverNow = serverNow1]
          assms(1,2) Some
        by (simp add: entriesOf_appended)
    next
      case False
      moreover have "entriesOf (uid u) d \<le> 1" using Some by (rule assms(3))
      ultimately have "entriesOf (uid u) d = 1" by simp
      then show ?thesis
        using joinRoom_present [where s = s and u = u and r = r and path = path
            and store = store and d = d and now = now1 and serverNow = serverNow1]
          assms(1,2) Some
        by simp
    qed
  qed
  then obtain s1 store1 d1 where j1: "joinRoom s r now1 serverNow1 store = Inr (s1, store1)"
    and u1: "user s1 = Some u" and c1: "currentRoom s1 = Some r"
    and d1: "store1 r = Some d1" and e1: "entriesOf (uid u) d1 = 1"
    by blast
  have "joinRoom s1 r now2 serverNow2 store1 = Inr (s1\<lparr> currentRoom := Some r \<rparr>, store1)"
    using joinRoom_present [where s = s1 and u = u and r = r and path = path
        and store = store1 and d = d1 and now = now2 and serverNow = serverNow2]
      u1 d1 e1 assms(2)
    by simp
  moreover have "s1\<lparr> currentRoom := Some r \<rparr> = s1" using c1 by simp
  ultimately show ?thesis using j1 d1 e1 by simp
qed

theorem join_twice_one_entry_witness:
  "user (bobIn None) = Some bob \<and>
   doc_rooms ''listening'' = Inr [''rooms'', ''listening''] \<and>
   entriesOf (uid bob) (pivot ''y'' True ''A'') \<le> 1 \<and>
   (\<exists>s1 store1 d1.
      joinRoom (bobIn None) ''listening'' 7000 7010 rooms = Inr (s1, store1) \<and>
      joinRoom s1 ''listening'' 8000 8010 store1 = Inr (s1, store1) \<and>
      store1 ''listening'' = Some d1 \<and> entriesOf (uid bob) d1 = 1)"
proof -
  have accepted: "doc_rooms ''listening'' = Inr [''rooms'', ''listening'']"
    by (simp add: doc_rooms_def)
  show ?thesis
    using join_twice_one_entry
      [where s = "bobIn None" and u = bob and store = rooms and r = "''listening''"
         and path = "[''rooms'', ''listening'']"
         and ?now1.0 = 7000 and ?serverNow1.0 = 7010 and ?now2.0 = 8000
         and ?serverNow2.0 = 8010]
      accepted
    by (simp add: bobIn_def rooms_def entriesOf_def participantsOf_def pivot_def bob_def)
qed

text \<open>
  C8. \<open>leaveRoom\<close> of a client that is in a room whose document exists writes the
  roster without the caller's entries and nothing else: the document is still there,
  its \<open>currentTrackId\<close>, \<open>isPlaying\<close>, \<open>lastActionTime\<close>, \<open>lastActionSeekPosition\<close>,
  \<open>lastActionByUserId\<close> and every other field are as before, the caller has no entry
  left, and no other room is touched. This holds for the last participant as well.
\<close>

theorem leave_only_removes_caller:
  assumes "user s = Some u" and "currentRoom s = Some r" and "r \<noteq> []"
    and "store r = Some d"
  shows "\<exists>store' d'.
           leaveRoom s serverNow store = Inr (s\<lparr> currentRoom := None \<rparr>, store') \<and>
           store' r = Some d' \<and>
           d' = d\<lparr> participants := Some (filter (\<lambda>p. p_id p \<noteq> uid u) (participantsOf d)) \<rparr> \<and>
           currentTrackId d' = currentTrackId d \<and>
           room_isPlaying d' = room_isPlaying d \<and>
           lastActionTime d' = lastActionTime d \<and>
           lastActionSeekPosition d' = lastActionSeekPosition d \<and>
           lastActionByUserId d' = lastActionByUserId d \<and>
           otherFields d' = otherFields d \<and>
           entriesOf (uid u) d' = 0 \<and>
           (\<forall>r'. r' \<noteq> r \<longrightarrow> store' r' = store r')"
  using assms
  by (simp add: leaveRoom_def updateDoc_def mergeFields_def participantsData_def entriesOf_def
      participantsOf_def)

theorem leave_only_removes_caller_witness:
  "user \<lparr> user = Some \<lparr> uid = ''A'', email = ''alice@example.org'' \<rparr>,
          currentRoom = Some ''listening'' \<rparr>
     = Some \<lparr> uid = ''A'', email = ''alice@example.org'' \<rparr> \<and>
   rooms ''listening'' = Some (pivot ''y'' True ''A'') \<and>
   (\<exists>store' d'.
      leaveRoom \<lparr> user = Some \<lparr> uid = ''A'', email = ''alice@example.org'' \<rparr>,
                  currentRoom = Some ''listening'' \<rparr> 9000 rooms
        = Inr (\<lparr> user = Some \<lparr> uid = ''A'', email = ''alice@example.org'' \<rparr>,
                 currentRoom = None \<rparr>, store') \<and>
      store' ''listening'' = Some d' \<and>
      participants d' = Some [] \<and>
      currentTrackId d' = Some ''y'' \<and> room_isPlaying d' = Some True \<and>
      lastActionTime d' = Some 1000 \<and> lastActionSeekPosition d' = Some 30 \<and>
      lastActionByUserId d' = Some ''A'')"
  using leave_only_removes_caller
    [where s = "\<lparr> user = Some \<lparr> uid = ''A'', email = ''alice@example.org'' \<rparr>,
                  currentRoom = Some ''listening'' \<rparr>"
       and u = "\<lparr> uid = ''A'', email = ''alice@example.org'' \<rparr>"
       and r = "''listening''" and store = rooms and d = "pivot ''y'' True ''A''"
       and serverNow = 9000]
  by (auto simp add: rooms_def pivot_def participantsOf_def)


section \<open>Seek debounce\<close>

lemma updateSeekPosition_idle:
  assumes "user s = Some u" and "currentRoom s = Some r" and "r \<noteq> []" and "pending tm = []"
  shows "\<exists>tm'. updateSeekPosition s t pos tm = Inr tm' \<and> armed r (uid u) (t + 500) pos tm'"
  using assms
  by (simp add: updateSeekPosition_def setTimeout_def clearTimeout_def armed_def
      split: option.splits)

text \<open>A call while a timer is pending cancels it and starts the only pending one.\<close>

lemma updateSeekPosition_armed:
  assumes "user s = Some u" and "currentRoom s = Some r" and "r \<noteq> []"
    and "armed r (uid u) d p tm"
  shows "\<exists>tm'. updateSeekPosition s t pos tm = Inr tm' \<and> armed r (uid u) (t + 500) pos tm'"
proof -
  obtain x where x: "pending tm = [x]" and ref: "seekDebounceRef tm = Some (t_id x)"
    using assms(4) by (auto simp: armed_def split: list.splits)
  show ?thesis
    using assms(1-3) x ref
    by (simp add: updateSeekPosition_def setTimeout_def clearTimeout_def armed_def)
qed

lemma runTimers_early:
  assumes "armed r i d p tm" and "now < d"
  shows "runTimers now tm = (tm, [])"
proof -
  obtain x where x: "pending tm = [x]" and d: "t_deadline x = d"
    using assms(1) by (auto simp: armed_def split: list.splits)
  have "tm\<lparr> pending := [x] \<rparr> = tm" using x by simp
  then show ?thesis using x d assms(2) by (simp add: runTimers_def)
qed

lemma runTimers_due:
  assumes "armed r i d p tm" and "d \<le> now"
  shows "runTimers now tm = (tm\<lparr> pending := [] \<rparr>, [UpdateDoc r (seekData p i)])"
proof -
  obtain x where x: "pending tm = [x]" and d: "t_deadline x = d"
    and rest: "t_pos x = p" "t_room x = r" "t_uid x = i"
    using assms(1) by (auto simp: armed_def split: list.splits)
  show ?thesis using x d rest assms(2) by (simp add: runTimers_def fire_def)
qed

lemma runTimers_idle:
  assumes "pending tm = []"
  shows "runTimers now tm = (tm, [])"
proof -
  have "tm\<lparr> pending := [] \<rparr> = tm" using assms by simp
  then show ?thesis using assms by (simp add: runTimers_def)
qed

lemma armed_one_pending: "armed r i d p tm \<Longrightarrow> length (pending tm) = 1"
  by (auto simp: armed_def split: list.splits)

lemma seekCalls_armed:
  assumes "user s = Some u" and "currentRoom s = Some r" and "r \<noteq> []"
  shows "armed r (uid u) (t0 + 500) p0 tm \<Longrightarrow> withinWindow ((t0, p0) # cs) \<Longrightarrow>
         \<exists>tm'. seekCalls s cs (tm, fx) = (tm', fx) \<and>
               armed r (uid u) (fst (last ((t0, p0) # cs)) + 500)
                 (snd (last ((t0, p0) # cs))) tm'"
proof (induction cs arbitrary: tm t0 p0)
  case Nil
  then show ?case by simp
next
  case (Cons c cs)
  obtain t pos where c: "c = (t, pos)" by (cases c)
  from Cons.prems(2) c have order: "t0 \<le> t" "t < t0 + 500"
    and rest: "withinWindow ((t, pos) # cs)"
    by simp_all
  have early: "runTimers t tm = (tm, [])"
    using Cons.prems(1) order(2) by (rule runTimers_early)
  obtain tm2 where upd: "updateSeekPosition s t pos tm = Inr tm2"
    and armed2: "armed r (uid u) (t + 500) pos tm2"
    using updateSeekPosition_armed [OF assms Cons.prems(1), of t pos] by blast
  obtain tm' where run: "seekCalls s cs (tm2, fx) = (tm', fx)"
    and fin: "armed r (uid u) (fst (last ((t, pos) # cs)) + 500)
                (snd (last ((t, pos) # cs))) tm'"
    using Cons.IH [OF armed2 rest] by blast
  show ?case using c early upd run fin by simp
qed

text \<open>
  C4. A client in a room, with no timer pending, calls \<open>updateSeekPosition\<close> one or
  more times, each call before the 500 ms of the call before it have run out. Up to
  the last call nothing is sent and exactly one timer is pending; once 500 ms have
  passed after the last call, exactly one update of the room document has been sent,
  with the position of the last call, and no timer is left.
\<close>

theorem debounce_coalesces:
  assumes "user s = Some u" and "currentRoom s = Some r" and "r \<noteq> []"
    and "pending tm = []"
    and "calls \<noteq> []" and "withinWindow calls"
    and "fst (last calls) + 500 \<le> final"
  shows "snd (seekCalls s calls (tm, [])) = [] \<and>
         length (pending (fst (seekCalls s calls (tm, [])))) = 1 \<and>
         snd (debounceRun s calls final tm)
           = [UpdateDoc r \<lparr> u_participants = None, u_currentTrackId = None, u_isPlaying = None,
                             u_lastActionTime = Some ServerTimestamp,
                             u_lastActionSeekPosition = Some (snd (last calls)),
                             u_lastActionByUserId = Some (uid u) \<rparr>] \<and>
         pending (fst (debounceRun s calls final tm)) = []"
proof -
  obtain t pos cs where calls: "calls = (t, pos) # cs"
    using assms(5) by (cases calls) auto
  have idle: "runTimers t tm = (tm, [])" using assms(4) by (rule runTimers_idle)
  obtain tm1 where upd: "updateSeekPosition s t pos tm = Inr tm1"
    and armed1: "armed r (uid u) (t + 500) pos tm1"
    using updateSeekPosition_idle [OF assms(1-4), of t pos] by blast
  obtain tm2 where run: "seekCalls s cs (tm1, []) = (tm2, [])"
    and armed2: "armed r (uid u) (fst (last calls) + 500) (snd (last calls)) tm2"
    using seekCalls_armed [OF assms(1-3) armed1, of cs "[]"] assms(6) calls by auto
  have all: "seekCalls s calls (tm, []) = (tm2, [])"
    using calls idle upd run by simp
  have "runTimers final tm2 =
          (tm2\<lparr> pending := [] \<rparr>, [UpdateDoc r (seekData (snd (last calls)) (uid u))])"
    using armed2 assms(7) by (rule runTimers_due)
  then show ?thesis
    using all armed_one_pending [OF armed2] by (simp add: debounceRun_def seekData_def)
qed

theorem debounce_coalesces_witness:
  "user (bobIn (Some ''listening'')) = Some bob \<and>
   currentRoom (bobIn (Some ''listening'')) = Some ''listening'' \<and>
   pending idle = [] \<and>
   withinWindow [(0, 10), (200, 42), (699, 17)] \<and>
   fst (last [(0, 10), (200, 42), (699, 17 :: rat)]) + 500 \<le> (1199 :: int) \<and>
   snd (debounceRun (bobIn (Some ''listening'')) [(0, 10), (200, 42), (699, 17)] 1199 idle)
     = [UpdateDoc ''listening''
          \<lparr> u_participants = None, u_currentTrackId = None, u_isPlaying = None,
            u_lastActionTime = Some ServerTimestamp, u_lastActionSeekPosition = Some 17,
            u_lastActionByUserId = Some ''B'' \<rparr>]"
  using debounce_coalesces
    [where s = "bobIn (Some ''listening'')" and u = bob and r = "''listening''" and tm = idle
       and calls = "[(0, 10), (200, 42), (699, 17)]" and final = 1199]
  by (simp add: bobIn_def bob_def idle_def)


end
